theory Spec2Isabelle
  imports Complex_Main
begin

section \<open>Data model of \<open>jt_ssh_client\<close>\<close>

text \<open>
  The embedding follows \<open>src/jt_ssh_client/connector.py\<close> and \<open>enums.py\<close>.
  Python methods whose names start with an underscore keep their names without it
  (\<open>_download_file\<close> is \<open>download_file\<close>). A \<open>Path\<close> is the string that \<open>str\<close> gives
  for it, so \<open>str(source)\<close> and \<open>str(destination)\<close> are the identity.
\<close>

subsection \<open>\<open>enums.py\<close>: the transport tags\<close>

datatype Client = SSHClient | SCPClient | SFTPClient

fun Client_value :: "Client \<Rightarrow> string" where
  "Client_value SSHClient = ''SSHClient''"
| "Client_value SCPClient = ''SCPClient''"
| "Client_value SFTPClient = ''SFTPClient''"

subsection \<open>Exceptions\<close>

text \<open>
  Every exception the source raises, or lets through from a collaborator, is a value.
  \<open>PyException msg\<close> is a bare \<open>Exception(msg)\<close>; \<open>CollaboratorError\<close> stands for any
  other exception of paramiko, scp or the operating system that the source does not catch.
\<close>

datatype error =
    FileExistsError string
  | PyException string
  | AttributeError string
  | ZeroDivisionError
  | UnicodeDecodeError
  | BadHostKeyException
  | AuthenticationException
  | CollaboratorError string

subsection \<open>Objects of the collaborators\<close>

type_synonym path = string
type_synonym kwargs = "(string \<times> string) list"

datatype pkey = RSAKey string
datatype policy = AutoAddPolicy | OtherPolicy string
datatype callback = ProgressTextCallback | OtherCallback string

text \<open>
  \<open>SSHClientObj p\<close> is the object made by \<open>SSHClient()\<close> after
  \<open>set_missing_host_key_policy(p)\<close> and \<open>load_system_host_keys()\<close>;
  \<open>SCPClientObj t cb\<close> is \<open>SCPClient(t, progress4=cb)\<close>, and \<open>ProgressTextCallback\<close>
  names the function \<open>_scp_client_progress_text_callback\<close>, the default of \<open>progress4\<close>.
\<close>

datatype ssh_handle = SSHClientObj policy
datatype transport = Transport nat
datatype scp_handle = SCPClientObj transport callback
datatype sftp_handle = SFTPClientObj nat
datatype channel = Channel nat

record connect_args =
  hostname :: string
  cport :: int
  cusername :: "string option"
  cpassword :: "string option"
  cpkey :: "pkey option"
  key_filename :: "string option"
  passphrase :: "string option"
  timeout :: int
  allow_agent :: bool
  look_for_keys :: bool

subsection \<open>The environment: what the collaborators answer\<close>

text \<open>
  The wire protocol, the local file system and the standard output are not part of the
  repository. They are a parameter: a world of type \<open>'w\<close> and one operation for each call
  the source makes. An operation returns the exception it raises (\<open>Inl\<close>) or its value,
  and the world after the call.
\<close>

type_synonym ('a, 'w) io = "'w \<Rightarrow> (error + 'a) \<times> 'w"

record 'w env =
  path_exists :: "path \<Rightarrow> bool"
  path_is_file :: "path \<Rightarrow> bool"
  path_is_dir :: "path \<Rightarrow> bool"
  path_iterdir :: "path \<Rightarrow> error + path list"
  from_private_key_file :: "string \<Rightarrow> string option \<Rightarrow> error + pkey"
  ssh_connect :: "ssh_handle \<Rightarrow> connect_args \<Rightarrow> (unit, 'w) io"
  ssh_get_transport :: "ssh_handle \<Rightarrow> 'w \<Rightarrow> transport option"
  ssh_open_sftp :: "ssh_handle \<Rightarrow> (sftp_handle, 'w) io"
  ssh_exec_command :: "ssh_handle \<Rightarrow> string \<Rightarrow> (channel, 'w) io"
  recv_exit_status :: "channel \<Rightarrow> (int, 'w) io"
  readlines :: "channel \<Rightarrow> (string list, 'w) io"
  ssh_close :: "ssh_handle \<Rightarrow> (unit, 'w) io"
  scp_get :: "scp_handle \<Rightarrow> string \<Rightarrow> string \<Rightarrow> bool \<Rightarrow> kwargs \<Rightarrow> (unit, 'w) io"
  scp_put :: "scp_handle \<Rightarrow> path \<Rightarrow> string \<Rightarrow> (unit, 'w) io"
  scp_close :: "scp_handle \<Rightarrow> (unit, 'w) io"
  sftp_get :: "sftp_handle \<Rightarrow> string \<Rightarrow> string \<Rightarrow> kwargs \<Rightarrow> (unit, 'w) io"
  sftp_put :: "sftp_handle \<Rightarrow> string \<Rightarrow> string \<Rightarrow> kwargs \<Rightarrow> (unit, 'w) io"
  sftp_close :: "sftp_handle \<Rightarrow> (unit, 'w) io"
  stdout_write :: "string \<Rightarrow> 'w \<Rightarrow> 'w"
  utf8_decode :: "string \<Rightarrow> string option"
  format_2f :: "rat \<Rightarrow> string"

text \<open>Sequencing: an exception ends the computation and keeps the world reached so far.\<close>

definition io_bind :: "('a, 'w) io \<Rightarrow> ('a \<Rightarrow> ('b, 'w) io) \<Rightarrow> ('b, 'w) io" where
  "io_bind m f w = (case m w of (Inl e, w') \<Rightarrow> (Inl e, w') | (Inr a, w') \<Rightarrow> f a w')"

definition io_return :: "'a \<Rightarrow> ('a, 'w) io" where
  "io_return a w = (Inr a, w)"

definition io_raise :: "error \<Rightarrow> ('a, 'w) io" where
  "io_raise e w = (Inl e, w)"

subsection \<open>The \<open>Connector\<close> object\<close>

text \<open>
  The three client attributes are \<open>None\<close> while the attribute has not been assigned
  (\<open>hasattr\<close> is false and reading it raises \<open>AttributeError\<close>); the objects stored in them
  are always truthy. The other optional fields are \<open>None\<close> for Python's \<open>None\<close>.
\<close>

record Connector =
  username :: "string option"
  password :: "string option"
  host :: string
  port :: int
  ssh_private_key :: "pkey option"
  ssh_private_key_file :: "path option"
  ssh_public_key_file :: "path option"
  ssh_key_passphrase :: "string option"
  policy :: policy
  ssh_client :: "ssh_handle option"
  scp_client :: "scp_handle option"
  sftp_client :: "sftp_handle option"

record init_args =
  arg_host :: string
  arg_port :: int
  arg_username :: "string option"
  arg_password :: "string option"
  arg_ssh_credentials :: "(path \<times> path \<times> string option) option"
  arg_policy :: policy

text \<open>Truthiness of an \<open>Optional[str]\<close>: neither \<open>None\<close> nor the empty string.\<close>

fun truthy :: "string option \<Rightarrow> bool" where
  "truthy None = False"
| "truthy (Some s) = (s \<noteq> [])"

text \<open>\<open>str.strip()\<close> on the ASCII white space (code points 9 to 13, 28 to 32).\<close>

definition is_space :: "char \<Rightarrow> bool" where
  "is_space c = (let n = of_char c :: nat in (9 \<le> n \<and> n \<le> 13) \<or> (28 \<le> n \<and> n \<le> 32))"

definition strip :: "string \<Rightarrow> string" where
  "strip s = rev (dropWhile is_space (rev (dropWhile is_space s)))"

section \<open>Opening a session: \<open>Connector.__init__\<close>\<close>

definition invalid_key_file_msg :: string where
  "invalid_key_file_msg = ''Invalid SSH Private/Public Key File''"

definition invalid_credentials_msg :: string where
  "invalid_credentials_msg =
     ''Invalid credentials supplied. Please specify either '' @
     ''a username/password or an SSH private key file path '' @
     ''and SSH private key passphrase.''"

text \<open>Lines 65 to 73: the fields as first assigned.\<close>

definition initial_fields :: "init_args \<Rightarrow> Connector" where
  "initial_fields a =
     \<lparr> username = arg_username a, password = arg_password a,
       host = strip (arg_host a), port = arg_port a,
       ssh_private_key = None, ssh_private_key_file = None,
       ssh_public_key_file = None, ssh_key_passphrase = None,
       policy = arg_policy a,
       ssh_client = None, scp_client = None, sftp_client = None \<rparr>"

text \<open>Lines 75 to 90: both key files are tested, then stored or refused.\<close>

definition check_ssh_credentials ::
  "'w env \<Rightarrow> (path \<times> path \<times> string option) option \<Rightarrow> Connector \<Rightarrow> error + Connector" where
  "check_ssh_credentials ev creds c =
     (case creds of
        None \<Rightarrow> Inr c
      | Some (priv, pub, phrase) \<Rightarrow>
          if path_exists ev priv \<and> path_exists ev pub
          then Inr (c\<lparr> ssh_private_key_file := Some priv,
                       ssh_public_key_file := Some pub,
                       ssh_key_passphrase := phrase \<rparr>)
          else Inl (FileExistsError invalid_key_file_msg))"

text \<open>\<open>_retrieve_ssh_key\<close> (lines 221 to 233).\<close>

definition retrieve_ssh_key :: "'w env \<Rightarrow> Connector \<Rightarrow> error + Connector" where
  "retrieve_ssh_key ev c =
     (case ssh_private_key_file c of
        None \<Rightarrow> Inr c
      | Some f \<Rightarrow>
          (case from_private_key_file ev f (ssh_key_passphrase c) of
             Inl e \<Rightarrow> Inl e
           | Inr k \<Rightarrow> Inr (c\<lparr> ssh_private_key := Some k \<rparr>)))"

text \<open>
  \<open>_create_ssh_client\<close> (lines 115 to 176). The two \<open>except\<close> clauses raise again what
  they caught, so every exception of \<open>connect\<close> goes through unchanged.
\<close>

definition key_connect_args :: "Connector \<Rightarrow> pkey \<Rightarrow> connect_args" where
  "key_connect_args c k =
     \<lparr> hostname = host c, cport = port c,
       cusername = username c, cpassword = password c,
       cpkey = Some k,
       key_filename = Some (case ssh_private_key_file c of None \<Rightarrow> ''None'' | Some f \<Rightarrow> f),
       passphrase = ssh_key_passphrase c,
       timeout = 5000, allow_agent = False, look_for_keys = False \<rparr>"

definition password_connect_args :: "Connector \<Rightarrow> connect_args" where
  "password_connect_args c =
     \<lparr> hostname = host c, cport = port c,
       cusername = username c, cpassword = password c,
       cpkey = None, key_filename = None, passphrase = None,
       timeout = 5000, allow_agent = False, look_for_keys = False \<rparr>"

definition create_ssh_client :: "'w env \<Rightarrow> Connector \<Rightarrow> (Connector \<times> ssh_handle, 'w) io" where
  "create_ssh_client ev c =
     (let client = SSHClientObj (policy c) in
      io_bind
        (case ssh_private_key c of
           Some k \<Rightarrow> ssh_connect ev client (key_connect_args c k)
         | None \<Rightarrow>
             if truthy (username c) \<and> truthy (password c)
             then ssh_connect ev client (password_connect_args c)
             else io_raise (PyException invalid_credentials_msg))
        (\<lambda>_. io_return (c\<lparr> ssh_client := Some client \<rparr>, client)))"

text \<open>
  \<open>_create_scp_client\<close> (lines 178 to 193): the attribute is assigned only when the
  transport is there, and read in any case by the \<open>return\<close>.
\<close>

definition create_scp_client ::
  "'w env \<Rightarrow> callback \<Rightarrow> Connector \<Rightarrow> (Connector \<times> scp_handle, 'w) io" where
  "create_scp_client ev cb c w =
     (case ssh_client c of
        None \<Rightarrow> (Inl (AttributeError ''ssh_client''), w)
      | Some h \<Rightarrow>
          (let c' = (case ssh_get_transport ev h w of
                       None \<Rightarrow> c
                     | Some t \<Rightarrow> c\<lparr> scp_client := Some (SCPClientObj t cb) \<rparr>)
           in case scp_client c' of
                None \<Rightarrow> (Inl (AttributeError ''scp_client''), w)
              | Some s \<Rightarrow> (Inr (c', s), w)))"

text \<open>\<open>_create_sftp_client\<close> (lines 195 to 203).\<close>

definition create_sftp_client :: "'w env \<Rightarrow> Connector \<Rightarrow> (Connector \<times> sftp_handle, 'w) io" where
  "create_sftp_client ev c =
     (case ssh_client c of
        None \<Rightarrow> io_raise (AttributeError ''ssh_client'')
      | Some h \<Rightarrow>
          io_bind (ssh_open_sftp ev h)
            (\<lambda>s. io_return (c\<lparr> sftp_client := Some s \<rparr>, s)))"

text \<open>
  The credential part of the constructor (lines 65 to 95): no call to the remote host
  is made here.
\<close>

definition resolve_credentials :: "'w env \<Rightarrow> init_args \<Rightarrow> error + Connector" where
  "resolve_credentials ev a =
     (case check_ssh_credentials ev (arg_ssh_credentials a) (initial_fields a) of
        Inl e \<Rightarrow> Inl e
      | Inr c \<Rightarrow> retrieve_ssh_key ev c)"

text \<open>Lines 96 to 98: the three clients are derived, each result assigned to its attribute.\<close>

definition open_session :: "'w env \<Rightarrow> Connector \<Rightarrow> (Connector, 'w) io" where
  "open_session ev c =
     io_bind (create_ssh_client ev c)
       (\<lambda>(c1, h). io_bind (create_scp_client ev ProgressTextCallback
                              (c1\<lparr> ssh_client := Some h \<rparr>))
          (\<lambda>(c2, s). io_bind (create_sftp_client ev (c2\<lparr> scp_client := Some s \<rparr>))
             (\<lambda>(c3, f). io_return (c3\<lparr> sftp_client := Some f \<rparr>))))"

definition Connector_init :: "'w env \<Rightarrow> init_args \<Rightarrow> (Connector, 'w) io" where
  "Connector_init ev a w =
     (case resolve_credentials ev a of
        Inl e \<Rightarrow> (Inl e, w)
      | Inr c \<Rightarrow> open_session ev c w)"


section \<open>Closing a session: \<open>disconnect\<close>\<close>


section \<open>Transport selection and transfers\<close>

datatype client_obj = SSHObj ssh_handle | SCPObj scp_handle | SFTPObj sftp_handle

text \<open>\<open>_get_client\<close> (lines 205 to 219) returns the attribute chosen by the tag.\<close>

fun get_client :: "Connector \<Rightarrow> Client \<Rightarrow> error + client_obj" where
  "get_client c SSHClient =
     (case ssh_client c of None \<Rightarrow> Inl (AttributeError ''ssh_client'') | Some h \<Rightarrow> Inr (SSHObj h))"
| "get_client c SCPClient =
     (case scp_client c of None \<Rightarrow> Inl (AttributeError ''scp_client'') | Some s \<Rightarrow> Inr (SCPObj s))"
| "get_client c SFTPClient =
     (case sftp_client c of None \<Rightarrow> Inl (AttributeError ''sftp_client'') | Some f \<Rightarrow> Inr (SFTPObj f))"

definition not_supported :: "Client \<Rightarrow> error" where
  "not_supported client = PyException (Client_value client @ '' not currently supported'')"

text \<open>
  \<open>_download_file\<close> (lines 250 to 279) and \<open>_upload_file\<close> (lines 299 to 325) choose the
  operation by the type of the object that \<open>_get_client\<close> returned.
\<close>

definition download_file ::
  "'w env \<Rightarrow> Connector \<Rightarrow> Client \<Rightarrow> string \<Rightarrow> string \<Rightarrow> bool \<Rightarrow> kwargs \<Rightarrow> (unit, 'w) io" where
  "download_file ev c client source destination recursive kw =
     (case get_client c client of
        Inl e \<Rightarrow> io_raise e
      | Inr (SCPObj s) \<Rightarrow> scp_get ev s source destination recursive kw
      | Inr (SFTPObj f) \<Rightarrow> sftp_get ev f source destination kw
      | Inr (SSHObj h) \<Rightarrow> io_raise (not_supported client))"

definition upload_file ::
  "'w env \<Rightarrow> Connector \<Rightarrow> Client \<Rightarrow> path \<Rightarrow> string \<Rightarrow> kwargs \<Rightarrow> (unit, 'w) io" where
  "upload_file ev c client source destination kw =
     (case get_client c client of
        Inl e \<Rightarrow> io_raise e
      | Inr (SCPObj s) \<Rightarrow> scp_put ev s source destination
      | Inr (SFTPObj f) \<Rightarrow> sftp_put ev f source destination kw
      | Inr (SSHObj h) \<Rightarrow> io_raise (not_supported client))"


text \<open>
  \<open>_upload_files\<close> (lines 327 to 350). The call on line 350 passes the client, the
  one-element list, the destination and the keyword arguments; \<open>recursive\<close> is not among
  them, so the callee runs with its default \<open>False\<close>. \<open>upload_items\<close> is the inner
  \<open>for item in source.iterdir()\<close> loop.
\<close>

function upload_files ::
    "'w env \<Rightarrow> Connector \<Rightarrow> Client \<Rightarrow> path list \<Rightarrow> string \<Rightarrow> bool \<Rightarrow> kwargs \<Rightarrow> (unit, 'w) io"
  and upload_items ::
    "'w env \<Rightarrow> Connector \<Rightarrow> Client \<Rightarrow> path list \<Rightarrow> string \<Rightarrow> kwargs \<Rightarrow> (unit, 'w) io"
where
  "upload_files ev c client [] destination recursive kw w = (Inr (), w)"
| "upload_files ev c client (source # sources) destination recursive kw w =
     (case (if path_is_file ev source
            then upload_file ev c client source destination kw w
            else (Inr (), w)) of
        (Inl e, w1) \<Rightarrow> (Inl e, w1)
      | (Inr u, w1) \<Rightarrow>
          (case (if path_is_dir ev source \<and> recursive
                 then (case path_iterdir ev source of
                         Inl e \<Rightarrow> (Inl e, w1)
                       | Inr items \<Rightarrow> upload_items ev c client items destination kw w1)
                 else (Inr (), w1)) of
             (Inl e, w2) \<Rightarrow> (Inl e, w2)
           | (Inr u, w2) \<Rightarrow> upload_files ev c client sources destination recursive kw w2))"
| "upload_items ev c client [] destination kw w = (Inr (), w)"
| "upload_items ev c client (item # items) destination kw w =
     (case upload_files ev c client [item] destination False kw w of
        (Inl e, w1) \<Rightarrow> (Inl e, w1)
      | (Inr u, w1) \<Rightarrow> upload_items ev c client items destination kw w1)"
  by pat_completeness auto
termination
  by (relation "measures
        [\<lambda>x. case x of Inl (ev, c, client, sources, destination, recursive, kw, w) \<Rightarrow>
                          (if recursive then 2 else 0)
                      | Inr (ev, c, client, items, destination, kw, w) \<Rightarrow> 1,
         \<lambda>x. case x of Inl (ev, c, client, sources, destination, recursive, kw, w) \<Rightarrow>
                          length sources
                      | Inr (ev, c, client, items, destination, kw, w) \<Rightarrow> length items]")
     auto

section \<open>Running commands: \<open>_execute_commands\<close>\<close>

definition newline :: string where
  "newline = [CHR 0x0A]"

definition carriage_return :: string where
  "carriage_return = [CHR 0x0D]"

text \<open>\<open>print(s)\<close> writes \<open>s\<close> and a newline.\<close>

definition py_print :: "'w env \<Rightarrow> string \<Rightarrow> 'w \<Rightarrow> 'w" where
  "py_print ev s = stdout_write ev (s @ newline)"

definition tagged_line :: "string \<Rightarrow> string \<Rightarrow> string" where
  "tagged_line command line = ''Input: '' @ command @ '' '' @ newline @ ''Result: '' @ line"

text \<open>The inner loop of lines 367 and 368.\<close>

fun print_response :: "'w env \<Rightarrow> string \<Rightarrow> string list \<Rightarrow> 'w \<Rightarrow> 'w" where
  "print_response ev command [] w = w"
| "print_response ev command (line # response) w =
     print_response ev command response (py_print ev (tagged_line command line) w)"

text \<open>
  Lines 362 to 368. The value of \<open>recv_exit_status()\<close> is dropped; the three calls are not
  wrapped in \<open>try\<close>.
\<close>

fun execute_commands :: "'w env \<Rightarrow> Connector \<Rightarrow> string list \<Rightarrow> (unit, 'w) io" where
  "execute_commands ev c [] w = (Inr (), w)"
| "execute_commands ev c (command # commands) w =
     (case ssh_client c of
        None \<Rightarrow> (Inl (AttributeError ''ssh_client''), w)
      | Some h \<Rightarrow>
          (case ssh_exec_command ev h command w of
             (Inl e, w1) \<Rightarrow> (Inl e, w1)
           | (Inr stdout, w1) \<Rightarrow>
               (case recv_exit_status ev stdout w1 of
                  (Inl e, w2) \<Rightarrow> (Inl e, w2)
                | (Inr status, w2) \<Rightarrow>
                    (case readlines ev stdout w2 of
                       (Inl e, w3) \<Rightarrow> (Inl e, w3)
                     | (Inr response, w3) \<Rightarrow>
                         execute_commands ev c commands
                           (print_response ev command response w3)))))"

section \<open>The progress callback of the accelerated copy\<close>

text \<open>Decimal text of an integer, as \<open>str\<close> gives it.\<close>

function str_digits :: "int \<Rightarrow> string" where
  "str_digits i =
     (if i < 10 then [char_of (48 + i)]
      else str_digits (i div 10) @ [char_of (48 + i mod 10)])"
  by pat_completeness auto
termination
  by (relation "measure nat") auto

declare str_digits.simps [simp del]

definition str_int :: "int \<Rightarrow> string" where
  "str_int i = (if i < 0 then ''-'' @ str_digits (- i) else str_digits i)"

text \<open>
  \<open>_scp_client_progress_text_callback\<close> (lines 17 to 38). The quotient
  \<open>sent / float(size)\<close> is taken as the exact rational (the rounding of the floating-point
  division is not modelled), \<open>format_2f\<close> is the text that \<open>:.2f\<close> gives, and the division
  raises when \<open>size\<close> (here \<open>fsize\<close>) is zero, as Python's does.
\<close>

definition progress_text_callback ::
  "'w env \<Rightarrow> string \<Rightarrow> int \<Rightarrow> int \<Rightarrow> string \<times> int \<Rightarrow> (unit, 'w) io" where
  "progress_text_callback ev file fsize sent peername w =
     (case utf8_decode ev file of
        None \<Rightarrow> (Inl UnicodeDecodeError, w)
      | Some name \<Rightarrow>
          (let prefix = fst peername @ '':'' @ str_int (snd peername) @ '' | '' @ name in
           if fsize = 0 then (Inl ZeroDivisionError, w)
           else
             (let percentage = 100 * (of_int sent / of_int fsize) in
              if sent < fsize
              then (Inr (), stdout_write ev
                      (prefix @ '' | '' @ format_2f ev percentage @ ''%'' @ carriage_return) w)
              else (Inr (), stdout_write ev
                      (prefix @ '' | '' @ format_2f ev percentage @ ''%'' @ newline) w))))"


section \<open>Auxiliary notions for the statements\<close>

text \<open>
  The successful run of one command, in the words of the specification: execute it,
  wait for its exit status, read its output, print each line tagged with the command.
  The exit status \<open>r2\<close> is not looked at. This is compared with \<open>execute_commands\<close> below.
\<close>

definition run_one :: "'w env \<Rightarrow> ssh_handle \<Rightarrow> string \<Rightarrow> 'w \<Rightarrow> 'w" where
  "run_one ev h command w =
     (let (r1, w1) = ssh_exec_command ev h command w;
          (r2, w2) = recv_exit_status ev (projr r1) w1;
          (r3, w3) = readlines ev (projr r1) w2
      in fold (\<lambda>line. stdout_write ev (tagged_line command line @ newline)) (projr r3) w3)"

text \<open>Conditions on collaborator operations, used as hypotheses only.\<close>

definition never_raises :: "('a, 'w) io \<Rightarrow> bool" where
  "never_raises m = (\<forall>w. \<not> isl (fst (m w)))"




section \<open>Two concrete environments\<close>

text \<open>
  \<open>log_env\<close> records every call in order. Its local file system holds the directory
  \<open>dirA\<close> with \<open>f1.txt\<close> and \<open>sub/f2.txt\<close> and a key pair; its remote host holds \<open>/a\<close> and
  \<open>/b\<close>, answers \<open>echo hi\<close> with one line and \<open>false\<close> with exit status 1.
\<close>

datatype event =
    EConnect ssh_handle connect_args
  | EOpenSftp ssh_handle
  | EExec ssh_handle string
  | ERecvExit channel
  | EReadlines channel
  | ECloseSSH ssh_handle
  | EScpGet scp_handle string string bool kwargs
  | EScpPut scp_handle path string
  | ECloseSCP scp_handle
  | ESftpGet sftp_handle string string kwargs
  | ESftpPut sftp_handle string string kwargs
  | ECloseSFTP sftp_handle
  | EWrite string

definition local_files :: "path list" where
  "local_files = [''dirA/f1.txt'', ''dirA/sub/f2.txt'', ''id_rsa'', ''id_rsa.pub'']"

definition local_dirs :: "path list" where
  "local_dirs = [''dirA'', ''dirA/sub'']"

definition local_iterdir :: "path \<Rightarrow> error + path list" where
  "local_iterdir p =
     (if p = ''dirA'' then Inr [''dirA/f1.txt'', ''dirA/sub'']
      else if p = ''dirA/sub'' then Inr [''dirA/sub/f2.txt'']
      else Inl (CollaboratorError ''NotADirectoryError''))"

definition remote_files :: "string list" where
  "remote_files = [''/a'', ''/b'']"

definition remote_lookup :: "string \<Rightarrow> error + unit" where
  "remote_lookup p =
     (if p \<in> set remote_files then Inr () else Inl (CollaboratorError ''path-not-found''))"

fun command_of :: "event list \<Rightarrow> channel \<Rightarrow> string" where
  "command_of w (Channel n) = (case drop n w of EExec h cmd # rest \<Rightarrow> cmd | _ \<Rightarrow> [])"

definition exit_status_of :: "string \<Rightarrow> int" where
  "exit_status_of cmd = (if cmd = ''false'' then 1 else 0)"

definition output_of :: "string \<Rightarrow> string list" where
  "output_of cmd = (if cmd = ''echo hi'' then [''hi'' @ newline] else [])"

definition two_decimals :: "rat \<Rightarrow> string" where
  "two_decimals r =
     (let k = \<lfloor>r * 100 + 1 / 2\<rfloor>
      in str_int (k div 100) @ ''.'' @ str_int (k mod 100 div 10) @ str_int (k mod 10))"

definition log_env :: "event list env" where
  "log_env =
     \<lparr> path_exists = (\<lambda>p. p \<in> set (local_files @ local_dirs)),
       path_is_file = (\<lambda>p. p \<in> set local_files),
       path_is_dir = (\<lambda>p. p \<in> set local_dirs),
       path_iterdir = local_iterdir,
       from_private_key_file =
         (\<lambda>f phrase. if f = ''id_rsa'' then Inr (RSAKey f)
                      else Inl (CollaboratorError ''SSHException'')),
       ssh_connect = (\<lambda>h a w. (Inr (), w @ [EConnect h a])),
       ssh_get_transport = (\<lambda>h w. Some (Transport 0)),
       ssh_open_sftp = (\<lambda>h w. (Inr (SFTPClientObj 0), w @ [EOpenSftp h])),
       ssh_exec_command = (\<lambda>h cmd w. (Inr (Channel (length w)), w @ [EExec h cmd])),
       recv_exit_status =
         (\<lambda>ch w. (Inr (exit_status_of (command_of w ch)), w @ [ERecvExit ch])),
       readlines = (\<lambda>ch w. (Inr (output_of (command_of w ch)), w @ [EReadlines ch])),
       ssh_close = (\<lambda>h w. (Inr (), w @ [ECloseSSH h])),
       scp_get = (\<lambda>s src dst r kw w. (remote_lookup src, w @ [EScpGet s src dst r kw])),
       scp_put = (\<lambda>s src dst w. (Inr (), w @ [EScpPut s src dst])),
       scp_close = (\<lambda>s w. (Inr (), w @ [ECloseSCP s])),
       sftp_get = (\<lambda>f src dst kw w. (remote_lookup src, w @ [ESftpGet f src dst kw])),
       sftp_put = (\<lambda>f src dst kw w. (Inr (), w @ [ESftpPut f src dst kw])),
       sftp_close = (\<lambda>f w. (Inr (), w @ [ECloseSFTP f])),
       stdout_write = (\<lambda>s w. w @ [EWrite s]),
       utf8_decode = Some,
       format_2f = two_decimals \<rparr>"



text \<open>Variants of \<open>log_env\<close> in which one collaborator call goes wrong.\<close>

definition no_transport_env :: "event list env" where
  "no_transport_env = log_env\<lparr> ssh_get_transport := (\<lambda>h w. None) \<rparr>"

definition refusing_env :: "event list env" where
  "refusing_env =
     log_env\<lparr> ssh_connect := (\<lambda>h a w. (Inl AuthenticationException, w @ [EConnect h a])) \<rparr>"



text \<open>Constructor arguments and the session that \<open>log_env\<close> opens for them.\<close>

definition bob_args :: init_args where
  "bob_args =
     \<lparr> arg_host = ''10.0.0.5'', arg_port = 22,
       arg_username = Some ''bob'', arg_password = Some ''x'',
       arg_ssh_credentials = None, arg_policy = AutoAddPolicy \<rparr>"

definition key_args :: init_args where
  "key_args = bob_args\<lparr> arg_ssh_credentials := Some (''id_rsa'', ''id_rsa.pub'', None) \<rparr>"

definition missing_key_args :: init_args where
  "missing_key_args = bob_args\<lparr> arg_ssh_credentials := Some (''id_rsa'', ''nope.pub'', None) \<rparr>"

definition no_password_args :: init_args where
  "no_password_args = bob_args\<lparr> arg_password := None \<rparr>"

definition bob :: Connector where
  "bob =
     (initial_fields bob_args)
       \<lparr> ssh_client := Some (SSHClientObj AutoAddPolicy),
         scp_client := Some (SCPClientObj (Transport 0) ProgressTextCallback),
         sftp_client := Some (SFTPClientObj 0) \<rparr>"

section \<open>Basic facts\<close>

lemma io_bind_Inl [simp]: "m w = (Inl e, w') \<Longrightarrow> io_bind m f w = (Inl e, w')"
  by (simp add: io_bind_def)

lemma io_bind_Inr [simp]: "m w = (Inr a, w') \<Longrightarrow> io_bind m f w = f a w'"
  by (simp add: io_bind_def)

lemma io_return_apply [simp]: "io_return a w = (Inr a, w)"
  by (simp add: io_return_def)

lemma io_raise_apply [simp]: "io_raise e w = (Inl e, w)"
  by (simp add: io_raise_def)



lemma never_raises_obtain:
  assumes "never_raises m"
  obtains a w' where "m w = (Inr a, w')"
proof -
  have "\<not> isl (fst (m w))"
    using assms by (simp add: never_raises_def)
  then show thesis
    using that by (cases "m w"; cases "fst (m w)") auto
qed

subsection \<open>What a successful constructor leaves in the three attributes\<close>

lemma create_scp_client_Inr:
  "create_scp_client ev cb c w = (Inr (c1, s), w1) \<Longrightarrow>
     w1 = w \<and> scp_client c1 = Some s \<and> ssh_client c1 = ssh_client c"
  by (auto simp: create_scp_client_def Let_def split: option.splits)

lemma create_sftp_client_Inr:
  "create_sftp_client ev c w = (Inr (c1, f), w1) \<Longrightarrow> c1 = c\<lparr> sftp_client := Some f \<rparr>"
  by (auto simp: create_sftp_client_def io_bind_def split: option.splits prod.splits sum.splits)

lemma open_session_handles:
  assumes "open_session ev c w = (Inr c', w')"
  shows "\<exists>h s f. ssh_client c' = Some h \<and> scp_client c' = Some s \<and> sftp_client c' = Some f"
proof -
  from assms obtain c1 h w1 where 1: "create_ssh_client ev c w = (Inr (c1, h), w1)"
    by (auto simp: open_session_def io_bind_def split: prod.splits sum.splits)
  with assms obtain c2 s w2 where
    2: "create_scp_client ev ProgressTextCallback (c1\<lparr> ssh_client := Some h \<rparr>) w1
          = (Inr (c2, s), w2)"
    by (auto simp: open_session_def io_bind_def split: prod.splits sum.splits)
  with 1 assms obtain c3 f w3 where
    3: "create_sftp_client ev (c2\<lparr> scp_client := Some s \<rparr>) w2 = (Inr (c3, f), w3)"
    by (auto simp: open_session_def io_bind_def split: prod.splits sum.splits)
  have c': "c' = c3\<lparr> sftp_client := Some f \<rparr>"
    using assms 1 2 3 by (simp add: open_session_def)
  have "ssh_client c2 = Some h"
    using create_scp_client_Inr [OF 2] by simp
  moreover have "c3 = c2\<lparr> scp_client := Some s, sftp_client := Some f \<rparr>"
    using create_sftp_client_Inr [OF 3] by simp
  ultimately show ?thesis
    using c' by simp
qed

lemma Connector_init_handles:
  assumes "Connector_init ev a w = (Inr c, w')"
  shows "\<exists>h s f. ssh_client c = Some h \<and> scp_client c = Some s \<and> sftp_client c = Some f"
  using assms open_session_handles
  by (fastforce simp: Connector_init_def split: sum.splits)

lemma bob_is_opened:
  "Connector_init log_env bob_args [] =
     (Inr bob,
      [EConnect (SSHClientObj AutoAddPolicy) (password_connect_args (initial_fields bob_args)),
       EOpenSftp (SSHClientObj AutoAddPolicy)])"
  by code_simp

section \<open>Credentials\<close>

text \<open>
  Claim C4. With a key-path triple supplied: if the private-key file or the public-key
  file does not exist, the credential part of the constructor, and with it the whole
  constructor, fails with \<open>FileExistsError\<close> (the specification's
  \<open>CredentialFileMissing\<close>) before any call to the remote host; if both exist and the key
  file loads, the credential part succeeds with the three paths stored and the private key
  loaded, and only then is the session opened.
\<close>

theorem key_files_checked_and_loaded:
  assumes "arg_ssh_credentials a = Some (priv, pub, phrase)"
  shows "(\<not> (path_exists ev priv \<and> path_exists ev pub) \<longrightarrow>
            resolve_credentials ev a = Inl (FileExistsError invalid_key_file_msg) \<and>
            Connector_init ev a w = (Inl (FileExistsError invalid_key_file_msg), w))
       \<and> (path_exists ev priv \<and> path_exists ev pub \<and>
            from_private_key_file ev priv phrase = Inr k \<longrightarrow>
            resolve_credentials ev a =
              Inr ((initial_fields a)\<lparr> ssh_private_key_file := Some priv,
                     ssh_public_key_file := Some pub,
                     ssh_key_passphrase := phrase,
                     ssh_private_key := Some k \<rparr>) \<and>
            Connector_init ev a w =
              open_session ev
                ((initial_fields a)\<lparr> ssh_private_key_file := Some priv,
                   ssh_public_key_file := Some pub,
                   ssh_key_passphrase := phrase,
                   ssh_private_key := Some k \<rparr>) w)"
  using assms
  by (simp add: resolve_credentials_def Connector_init_def check_ssh_credentials_def
        retrieve_ssh_key_def)

theorem key_files_checked_and_loaded_witness:
  "Connector_init log_env missing_key_args [] = (Inl (FileExistsError invalid_key_file_msg), [])
   \<and> resolve_credentials log_env key_args =
       Inr ((initial_fields key_args)\<lparr> ssh_private_key_file := Some ''id_rsa'',
              ssh_public_key_file := Some ''id_rsa.pub'',
              ssh_key_passphrase := None,
              ssh_private_key := Some (RSAKey ''id_rsa'') \<rparr>)"
proof -
  have m: "arg_ssh_credentials missing_key_args = Some (''id_rsa'', ''nope.pub'', None)"
    by (simp add: missing_key_args_def)
  have absent: "\<not> (path_exists log_env ''id_rsa'' \<and> path_exists log_env ''nope.pub'')"
    by code_simp
  have k: "arg_ssh_credentials key_args = Some (''id_rsa'', ''id_rsa.pub'', None)"
    by (simp add: key_args_def)
  have present: "path_exists log_env ''id_rsa'' \<and> path_exists log_env ''id_rsa.pub'' \<and>
      from_private_key_file log_env ''id_rsa'' None = Inr (RSAKey ''id_rsa'')"
    by code_simp
  have 1: "Connector_init log_env missing_key_args [] =
      (Inl (FileExistsError invalid_key_file_msg), [])"
    using key_files_checked_and_loaded [OF m, where ev = log_env and w = "[]"] absent by blast
  have 2: "resolve_credentials log_env key_args =
       Inr ((initial_fields key_args)\<lparr> ssh_private_key_file := Some ''id_rsa'',
              ssh_public_key_file := Some ''id_rsa.pub'',
              ssh_key_passphrase := None,
              ssh_private_key := Some (RSAKey ''id_rsa'') \<rparr>)"
    using key_files_checked_and_loaded
      [OF k, where ev = log_env and k = "RSAKey ''id_rsa''" and w = "[]"] present
    by blast
  from 1 2 show ?thesis by (rule conjI)
qed

text \<open>
  Claim C5. With no key triple and without both a non-empty username and a non-empty
  password, the credential part of the constructor succeeds, and the failure is the
  \<open>Exception\<close> of \<open>_create_ssh_client\<close> (the specification's \<open>InsufficientCredentials\<close>),
  raised when the session is opened and before any call to the remote host.
\<close>

theorem insufficient_credentials_at_open:
  assumes "arg_ssh_credentials a = None"
    and "\<not> (truthy (arg_username a) \<and> truthy (arg_password a))"
  shows "resolve_credentials ev a = Inr (initial_fields a) \<and>
         create_ssh_client ev (initial_fields a) w =
           (Inl (PyException invalid_credentials_msg), w) \<and>
         Connector_init ev a w = (Inl (PyException invalid_credentials_msg), w)"
proof -
  have r: "resolve_credentials ev a = Inr (initial_fields a)"
    using assms(1)
    by (simp add: resolve_credentials_def check_ssh_credentials_def retrieve_ssh_key_def
          initial_fields_def)
  have s: "create_ssh_client ev (initial_fields a) w =
      (Inl (PyException invalid_credentials_msg), w)"
    using assms(2)
    by (auto simp: create_ssh_client_def initial_fields_def io_bind_def io_raise_def Let_def)
  have "Connector_init ev a w = (Inl (PyException invalid_credentials_msg), w)"
    using r s by (simp add: Connector_init_def open_session_def)
  with r s show ?thesis by simp
qed

theorem insufficient_credentials_at_open_witness:
  "resolve_credentials log_env no_password_args = Inr (initial_fields no_password_args) \<and>
   create_ssh_client log_env (initial_fields no_password_args) [] =
     (Inl (PyException invalid_credentials_msg), []) \<and>
   Connector_init log_env no_password_args [] = (Inl (PyException invalid_credentials_msg), [])"
proof -
  have 1: "arg_ssh_credentials no_password_args = None"
    by (simp add: no_password_args_def bob_args_def)
  have 2: "\<not> (truthy (arg_username no_password_args) \<and> truthy (arg_password no_password_args))"
    by (simp add: no_password_args_def bob_args_def)
  show ?thesis
    by (rule insufficient_credentials_at_open [OF 1 2])
qed

section \<open>Opening the session\<close>

text \<open>
  Claim C6. When the credentials are enough for a connection attempt and \<open>connect\<close>
  raises \<open>AuthenticationException\<close> (the specification's \<open>AuthenticationFailed\<close>), the
  constructor fails with that same exception, which is not \<open>BadHostKeyException\<close>
  (\<open>HostKeyRejected\<close>); no \<open>Connector\<close> is returned, and the world is the one the refused
  \<open>connect\<close> left, so neither the SCP client nor the SFTP channel has been derived.
\<close>

theorem authentication_failure_propagates:
  assumes "resolve_credentials ev a = Inr c"
    and "ssh_private_key c \<noteq> None \<or> truthy (username c) \<and> truthy (password c)"
    and "ssh_connect ev (SSHClientObj (policy c))
           (case ssh_private_key c of
              Some k \<Rightarrow> key_connect_args c k
            | None \<Rightarrow> password_connect_args c) w = (Inl AuthenticationException, w')"
  shows "Connector_init ev a w = (Inl AuthenticationException, w') \<and>
         AuthenticationException \<noteq> BadHostKeyException"
proof -
  have "create_ssh_client ev c w = (Inl AuthenticationException, w')"
    using assms(2,3)
    by (cases "ssh_private_key c") (simp_all add: create_ssh_client_def Let_def)
  then show ?thesis
    using assms(1) by (simp add: Connector_init_def open_session_def)
qed

theorem authentication_failure_propagates_witness:
  "Connector_init refusing_env bob_args [] =
     (Inl AuthenticationException,
      [EConnect (SSHClientObj AutoAddPolicy) (password_connect_args (initial_fields bob_args))])
   \<and> AuthenticationException \<noteq> BadHostKeyException"
proof -
  have 1: "resolve_credentials refusing_env bob_args = Inr (initial_fields bob_args)"
    by code_simp
  have 2: "ssh_private_key (initial_fields bob_args) \<noteq> None \<or>
      truthy (username (initial_fields bob_args)) \<and> truthy (password (initial_fields bob_args))"
    by code_simp
  have 3: "ssh_connect refusing_env (SSHClientObj (policy (initial_fields bob_args)))
           (case ssh_private_key (initial_fields bob_args) of
              Some k \<Rightarrow> key_connect_args (initial_fields bob_args) k
            | None \<Rightarrow> password_connect_args (initial_fields bob_args)) [] =
         (Inl AuthenticationException,
          [EConnect (SSHClientObj AutoAddPolicy)
             (password_connect_args (initial_fields bob_args))])"
    by code_simp
  show ?thesis
    by (rule authentication_failure_propagates [OF 1 2 3])
qed

text \<open>
  Claim C3, at the input where the code departs from it: \<open>connect\<close> succeeds and
  \<open>get_transport()\<close> returns \<open>None\<close>. The assignment of line 191 is skipped and the
  \<open>return self.scp_client\<close> of line 193 reads an attribute that was never assigned, so the
  constructor ends with \<open>AttributeError\<close> after the connection was made, and the SFTP
  channel is never opened. A \<open>Connector\<close> whose \<open>scp_client\<close> is unset answers a download
  over the SCP tag with the same \<open>AttributeError\<close>, raised by \<open>_get_client\<close>.
\<close>

theorem absent_transport_fails_constructor:
  "Connector_init no_transport_env bob_args [] =
     (Inl (AttributeError ''scp_client''),
      [EConnect (SSHClientObj AutoAddPolicy) (password_connect_args (initial_fields bob_args))])
   \<and> download_file no_transport_env (bob\<lparr> scp_client := None \<rparr>) SCPClient ''/a'' ''.'' False [] [] =
     (Inl (AttributeError ''scp_client''), [])"
  by code_simp

section \<open>Closing the session\<close>






section \<open>Transfers\<close>

text \<open>
  Claim C8. In every session that the constructor opened, \<open>_download_file\<close> with the SCP
  tag is the \<open>get\<close> of the stored SCP client with the \<open>recursive\<close> flag passed on; with the
  SFTP tag it is the \<open>get\<close> of the stored SFTP client, which receives no \<open>recursive\<close>
  argument; with any other tag, which can only be the SSH tag, it raises the
  \<open>Exception\<close> "not currently supported" (the specification's \<open>UnsupportedTransport\<close>)
  and calls nothing.
\<close>

theorem download_file_routing:
  assumes "Connector_init ev a w0 = (Inr c, w1)"
  shows "\<exists>s f. scp_client c = Some s \<and> sftp_client c = Some f \<and>
           download_file ev c SCPClient source destination recursive kw =
             scp_get ev s source destination recursive kw \<and>
           download_file ev c SFTPClient source destination recursive kw =
             sftp_get ev f source destination kw \<and>
           (\<forall>client. client \<noteq> SCPClient \<longrightarrow> client \<noteq> SFTPClient \<longrightarrow>
              download_file ev c client source destination recursive kw w =
                (Inl (PyException (Client_value client @ '' not currently supported'')), w)) \<and>
           download_file ev c SSHClient source destination recursive kw w =
             (Inl (PyException ''SSHClient not currently supported''), w)"
proof -
  from Connector_init_handles [OF assms] obtain h s f where
    hs: "ssh_client c = Some h" "scp_client c = Some s" "sftp_client c = Some f"
    by blast
  have "download_file ev c client source destination recursive kw w =
      (Inl (PyException (Client_value client @ '' not currently supported'')), w)"
    if "client \<noteq> SCPClient" "client \<noteq> SFTPClient" for client
    using that hs by (cases client) (simp_all add: download_file_def not_supported_def)
  then show ?thesis
    using hs by (simp add: download_file_def not_supported_def)
qed

theorem download_file_routing_witness:
  "download_file log_env bob SCPClient ''/a'' ''.'' True [] [] =
     (Inr (), [EScpGet (SCPClientObj (Transport 0) ProgressTextCallback) ''/a'' ''.'' True []])
   \<and> download_file log_env bob SFTPClient ''/a'' ''.'' True [] [] =
     (Inr (), [ESftpGet (SFTPClientObj 0) ''/a'' ''.'' []])
   \<and> download_file log_env bob SSHClient ''/a'' ''.'' True [] [] =
     (Inl (PyException ''SSHClient not currently supported''), [])"
proof -
  from download_file_routing [OF bob_is_opened, of "''/a''" "''.''" True "[]" "[]"]
  obtain s f where sf: "scp_client bob = Some s" "sftp_client bob = Some f"
    and 1: "download_file log_env bob SCPClient ''/a'' ''.'' True [] =
              scp_get log_env s ''/a'' ''.'' True []"
    and 2: "download_file log_env bob SFTPClient ''/a'' ''.'' True [] =
              sftp_get log_env f ''/a'' ''.'' []"
    and 3: "download_file log_env bob SSHClient ''/a'' ''.'' True [] [] =
             (Inl (PyException ''SSHClient not currently supported''), [])"
    by blast
  from sf have s: "s = SCPClientObj (Transport 0) ProgressTextCallback"
    and f: "f = SFTPClientObj 0"
    by (simp_all add: bob_def)
  have "scp_get log_env s ''/a'' ''.'' True [] [] = (Inr (), [EScpGet s ''/a'' ''.'' True []])"
    by (simp add: log_env_def remote_lookup_def remote_files_def)
  moreover have "sftp_get log_env f ''/a'' ''.'' [] [] = (Inr (), [ESftpGet f ''/a'' ''.'' []])"
    by (simp add: log_env_def remote_lookup_def remote_files_def)
  ultimately show ?thesis
    using 1 2 3 s f by simp
qed





lemma upload_files_not_recursive:
  "upload_files ev c client [source] destination False kw w =
     (if path_is_file ev source then upload_file ev c client source destination kw w
      else (Inr (), w))"
  by (auto split: prod.splits sum.splits)

text \<open>
  Claim C1, at the input where the code departs from it: the scenario of the
  specification, \<open>dirA\<close> holding \<open>f1.txt\<close> and \<open>sub/f2.txt\<close>, uploaded over SCP with
  \<open>recursive=True\<close>. Only \<open>dirA/f1.txt\<close> is uploaded. The call of line 350 does not pass
  \<open>recursive\<close> on, so \<open>dirA/sub\<close> is visited with \<open>recursive=False\<close> and skipped, and
  \<open>dirA/sub/f2.txt\<close> is never put.
\<close>

theorem nested_file_is_not_uploaded:
  "upload_files log_env bob SCPClient [''dirA''] ''/remote/dst'' True [] [] =
     (Inr (),
      [EScpPut (SCPClientObj (Transport 0) ProgressTextCallback) ''dirA/f1.txt'' ''/remote/dst''])
   \<and> path_is_file log_env ''dirA/sub/f2.txt''
   \<and> path_iterdir log_env ''dirA/sub'' = Inr [''dirA/sub/f2.txt'']"
  by code_simp

section \<open>Running commands\<close>

lemma print_response_fold:
  "print_response ev command response w =
     fold (\<lambda>line. stdout_write ev (tagged_line command line @ newline)) response w"
  by (induction response arbitrary: w) (simp_all add: py_print_def)

text \<open>
  Claim C9. While no call on the SSH client raises, \<open>_execute_commands\<close> returns normally
  and its effect on the world is that of running the commands one after the other in the
  given order, each one by \<open>run_one\<close>: \<open>exec_command\<close>, then \<open>recv_exit_status\<close>, then
  \<open>readlines\<close>, then one \<open>print\<close> of \<open>Input: <command> \<newline>Result: <line>\<close> for each line.
  The exit status takes no part in it, so a non-zero status stops nothing.
\<close>

theorem execute_commands_runs_every_command:
  assumes "ssh_client c = Some h"
    and "\<forall>command. never_raises (ssh_exec_command ev h command)"
    and "\<forall>ch. never_raises (recv_exit_status ev ch)"
    and "\<forall>ch. never_raises (readlines ev ch)"
  shows "execute_commands ev c commands w = (Inr (), fold (run_one ev h) commands w)"
proof (induction commands arbitrary: w)
  case Nil
  show ?case by simp
next
  case (Cons command commands)
  from assms(2) obtain ch w1 where e1: "ssh_exec_command ev h command w = (Inr ch, w1)"
    by (blast intro: never_raises_obtain)
  from assms(3) obtain st w2 where e2: "recv_exit_status ev ch w1 = (Inr st, w2)"
    by (blast intro: never_raises_obtain)
  from assms(4) obtain ls w3 where e3: "readlines ev ch w2 = (Inr ls, w3)"
    by (blast intro: never_raises_obtain)
  have "run_one ev h command w = print_response ev command ls w3"
    using e1 e2 e3 by (simp add: run_one_def print_response_fold)
  then show ?case
    using assms(1) e1 e2 e3 Cons.IH by simp
qed

theorem execute_commands_runs_every_command_witness:
  "execute_commands log_env bob [''echo hi'', ''false''] [] =
     (Inr (),
      [EExec (SSHClientObj AutoAddPolicy) ''echo hi'', ERecvExit (Channel 0),
       EReadlines (Channel 0),
       EWrite (''Input: echo hi '' @ newline @ ''Result: hi'' @ newline @ newline),
       EExec (SSHClientObj AutoAddPolicy) ''false'', ERecvExit (Channel 4),
       EReadlines (Channel 4)])
   \<and> exit_status_of ''false'' = 1"
proof -
  let ?h = "SSHClientObj AutoAddPolicy"
  have 1: "ssh_client bob = Some ?h"
    by (simp add: bob_def)
  have 2: "\<forall>command. never_raises (ssh_exec_command log_env ?h command)"
    by (simp add: never_raises_def log_env_def)
  have 3: "\<forall>ch. never_raises (recv_exit_status log_env ch)"
    by (simp add: never_raises_def log_env_def)
  have 4: "\<forall>ch. never_raises (readlines log_env ch)"
    by (simp add: never_raises_def log_env_def)
  have run: "execute_commands log_env bob [''echo hi'', ''false''] [] =
      (Inr (), fold (run_one log_env ?h) [''echo hi'', ''false''] [])"
    by (rule execute_commands_runs_every_command [OF 1 2 3 4])
  have "fold (run_one log_env ?h) [''echo hi'', ''false''] [] =
      [EExec ?h ''echo hi'', ERecvExit (Channel 0), EReadlines (Channel 0),
       EWrite (''Input: echo hi '' @ newline @ ''Result: hi'' @ newline @ newline),
       EExec ?h ''false'', ERecvExit (Channel 4), EReadlines (Channel 4)]"
    by code_simp
  moreover have "exit_status_of ''false'' = 1"
    by (simp add: exit_status_of_def)
  ultimately show ?thesis
    using run by simp
qed

section \<open>The progress callback\<close>

text \<open>
  Claim C10. With a total size of zero the callback raises and writes nothing; the
  exception is \<open>ZeroDivisionError\<close> whenever the file name decodes. With a non-zero size
  and a name that decodes, it writes one line: the peer, the name, the percentage
  \<open>100 * (sent / size)\<close> with two decimals and a percent sign, ended by a carriage return
  while \<open>sent < size\<close> and by a newline otherwise. So the callback returns normally only
  if the size is not zero.
\<close>

theorem progress_callback_needs_nonzero_size:
  "(fsize = 0 \<longrightarrow>
      isl (fst (progress_text_callback ev fname fsize sent peername w)) \<and>
      snd (progress_text_callback ev fname fsize sent peername w) = w \<and>
      (utf8_decode ev fname \<noteq> None \<longrightarrow>
         progress_text_callback ev fname fsize sent peername w = (Inl ZeroDivisionError, w)))
   \<and> (fsize \<noteq> 0 \<and> utf8_decode ev fname = Some name \<longrightarrow>
        progress_text_callback ev fname fsize sent peername w =
          (Inr (), stdout_write ev
             (fst peername @ '':'' @ str_int (snd peername) @ '' | '' @ name @ '' | '' @
              format_2f ev (100 * (of_int sent / of_int fsize)) @ ''%'' @
              (if sent < fsize then carriage_return else newline)) w))
   \<and> (\<not> isl (fst (progress_text_callback ev fname fsize sent peername w)) \<longrightarrow> fsize \<noteq> 0)"
  by (auto simp: progress_text_callback_def Let_def split: option.splits)

theorem progress_callback_needs_nonzero_size_witness:
  "progress_text_callback log_env ''f1.txt'' 0 0 (''10.0.0.5'', 22) [] =
     (Inl ZeroDivisionError, [])
   \<and> progress_text_callback log_env ''f1.txt'' 200 50 (''10.0.0.5'', 22) [] =
     (Inr (), [EWrite (''10.0.0.5:22 | f1.txt | 25.00%'' @ carriage_return)])
   \<and> progress_text_callback log_env ''f1.txt'' 200 200 (''10.0.0.5'', 22) [] =
     (Inr (), [EWrite (''10.0.0.5:22 | f1.txt | 100.00%'' @ newline)])"
proof -
  have d: "utf8_decode log_env ''f1.txt'' = Some ''f1.txt''"
    by (simp add: log_env_def)
  then have d': "utf8_decode log_env ''f1.txt'' \<noteq> None"
    by simp
  have nz: "(200 :: int) \<noteq> 0"
    by simp
  have 1: "progress_text_callback log_env ''f1.txt'' 0 0 (''10.0.0.5'', 22) [] =
      (Inl ZeroDivisionError, [])"
    by (rule progress_callback_needs_nonzero_size
          [where ev = log_env and fname = "''f1.txt''" and fsize = 0 and sent = 0
             and peername = "(''10.0.0.5'', 22)" and w = "[]",
           THEN conjunct1, THEN mp, OF refl, THEN conjunct2, THEN conjunct2, THEN mp, OF d'])
  have "progress_text_callback log_env ''f1.txt'' 200 50 (''10.0.0.5'', 22) [] =
      (Inr (), stdout_write log_env
         (fst (''10.0.0.5'', 22 :: int) @ '':'' @ str_int (snd (''10.0.0.5'', 22 :: int)) @
          '' | '' @ ''f1.txt'' @ '' | '' @
          format_2f log_env (100 * (of_int 50 / of_int 200)) @ ''%'' @
          (if (50 :: int) < 200 then carriage_return else newline)) [])"
    by (rule progress_callback_needs_nonzero_size
          [where ev = log_env and fname = "''f1.txt''" and fsize = 200 and sent = 50
             and peername = "(''10.0.0.5'', 22)" and w = "[]" and name = "''f1.txt''",
           THEN conjunct2, THEN conjunct1, THEN mp, OF conjI [OF nz d]])
  also have "\<dots> = (Inr (), [EWrite (''10.0.0.5:22 | f1.txt | 25.00%'' @ carriage_return)])"
    by code_simp
  finally have 2: "progress_text_callback log_env ''f1.txt'' 200 50 (''10.0.0.5'', 22) [] =
      (Inr (), [EWrite (''10.0.0.5:22 | f1.txt | 25.00%'' @ carriage_return)])" .
  have "progress_text_callback log_env ''f1.txt'' 200 200 (''10.0.0.5'', 22) [] =
      (Inr (), stdout_write log_env
         (fst (''10.0.0.5'', 22 :: int) @ '':'' @ str_int (snd (''10.0.0.5'', 22 :: int)) @
          '' | '' @ ''f1.txt'' @ '' | '' @
          format_2f log_env (100 * (of_int 200 / of_int 200)) @ ''%'' @
          (if (200 :: int) < 200 then carriage_return else newline)) [])"
    by (rule progress_callback_needs_nonzero_size
          [where ev = log_env and fname = "''f1.txt''" and fsize = 200 and sent = 200
             and peername = "(''10.0.0.5'', 22)" and w = "[]" and name = "''f1.txt''",
           THEN conjunct2, THEN conjunct1, THEN mp, OF conjI [OF nz d]])
  also have "\<dots> = (Inr (), [EWrite (''10.0.0.5:22 | f1.txt | 100.00%'' @ newline)])"
    by code_simp
  finally have 3: "progress_text_callback log_env ''f1.txt'' 200 200 (''10.0.0.5'', 22) [] =
      (Inr (), [EWrite (''10.0.0.5:22 | f1.txt | 100.00%'' @ newline)])" .
  show ?thesis
    by (rule conjI [OF 1 conjI [OF 2 3]])
qed

end
